theory Spec2Isabelle
  imports Complex_Main
begin

section \<open>Data model (types/workflow.ts)\<close>

text \<open>
  A value of TypeScript type \<open>any\<close>, as far as the engine stores and forwards it.
  \<open>Record<string, any>\<close> is a finite map from keys to such values.
\<close>

datatype any = ANull | ABool bool | ANum int | AStr string | AObj "(string \<times> any) list"

type_synonym record_any = "string \<rightharpoonup> any"

text \<open>
  A callback (\<open>onActivate\<close>, \<open>onComplete\<close>, \<open>onStart\<close>, \<open>onCancel\<close>) is code the engine
  only calls; it is represented by a label, and an optional field by \<open>option\<close>.
\<close>

type_synonym hook = string

text \<open>
  \<open>WorkflowStep\<close>. The field \<open>id\<close> is named \<open>step_id\<close>. The completion predicate
  receives a \<open>WorkflowContext\<close>; of that context only \<open>data\<close> (the \<open>data\<close> of the
  captured state) varies with the engine state, so the predicate is a function of it.
  The fields \<open>component\<close> and \<open>metadata\<close> are never read by the engine or the utilities.
\<close>

record WorkflowStep =
  step_id :: string
  screen :: "string option"
  completed :: bool
  required :: bool
  completionCondition :: "(record_any \<Rightarrow> bool) option"
  navigationParams :: "record_any option"
  headless :: "bool option"
  dependencies :: "string list option"
  onActivate :: "hook option"
  onComplete :: "hook option"

text \<open>\<open>WorkflowDefinition\<close>; \<open>id\<close>, \<open>name\<close> and the hooks carry the prefix \<open>wf_\<close>.\<close>

record WorkflowDefinition =
  wf_id :: string
  wf_name :: string
  steps :: "WorkflowStep list"
  skippable :: "bool option"
  pausable :: "bool option"
  wf_onComplete :: "hook option"
  wf_onStart :: "hook option"
  wf_onCancel :: "hook option"

text \<open>\<open>WorkflowHistoryEntry\<close>; \<open>completedAt\<close> is a \<open>Date\<close>, milliseconds since the epoch.\<close>

record WorkflowHistoryEntry =
  h_workflowId :: string
  h_stepId :: string
  completedAt :: nat
  h_data :: "any option"

record WorkflowState =
  activeWorkflow :: "WorkflowDefinition option"
  currentStepId :: "string option"
  paused :: bool
  history :: "WorkflowHistoryEntry list"
  data :: record_any

definition initialState :: WorkflowState where
  "initialState = \<lparr>activeWorkflow = None, currentStepId = None, paused = False,
     history = [], data = Map.empty\<rparr>"

text \<open>JavaScript truthiness of an optional boolean and of an optional string.\<close>

fun truthy_bool :: "bool option \<Rightarrow> bool" where
  "truthy_bool None = False"
| "truthy_bool (Some b) = b"

fun truthy_string :: "string option \<Rightarrow> bool" where
  "truthy_string None = False"
| "truthy_string (Some s) = (s \<noteq> [])"

section \<open>WorkflowUtils.getProgress\<close>



text \<open>\<open>WorkflowUtils.canComplete\<close>: every required step is completed.\<close>

definition canComplete :: "WorkflowDefinition \<Rightarrow> bool" where
  "canComplete workflow =
     (let requiredSteps = filter (\<lambda>step. required step) (steps workflow)
      in list_all (\<lambda>step. completed step) requiredSteps)"

section \<open>The reducer (WorkflowProvider)\<close>

datatype WorkflowAction =
    START_WORKFLOW WorkflowDefinition "record_any option"
  | STOP_WORKFLOW
  | PAUSE_WORKFLOW
  | RESUME_WORKFLOW
  | COMPLETE_STEP string "any option"
  | SET_CURRENT_STEP string
  | SET_WORKFLOW_DATA string any
  | ADD_HISTORY_ENTRY string string "any option"

text \<open>
  \<open>workflowReducer\<close>. The reducer reads the clock (\<open>new Date()\<close>) for a history entry;
  the clock value is the first argument. An object spread of an absent payload adds
  nothing.
\<close>

fun workflowReducer :: "nat \<Rightarrow> WorkflowState \<Rightarrow> WorkflowAction \<Rightarrow> WorkflowState" where
  "workflowReducer now state (START_WORKFLOW workflow d) =
     state\<lparr>activeWorkflow := Some workflow, currentStepId := None, paused := False,
       data := data state ++ (case d of None \<Rightarrow> Map.empty | Some m \<Rightarrow> m)\<rparr>"
| "workflowReducer now state STOP_WORKFLOW =
     state\<lparr>activeWorkflow := None, currentStepId := None, paused := False\<rparr>"
| "workflowReducer now state PAUSE_WORKFLOW = state\<lparr>paused := True\<rparr>"
| "workflowReducer now state RESUME_WORKFLOW = state\<lparr>paused := False\<rparr>"
| "workflowReducer now state (COMPLETE_STEP stepId d) =
     (case activeWorkflow state of
        None \<Rightarrow> state
      | Some aw \<Rightarrow>
          state\<lparr>activeWorkflow :=
            Some (aw\<lparr>steps := map (\<lambda>step. if step_id step = stepId
                                          then step\<lparr>completed := True\<rparr> else step)
                                (steps aw)\<rparr>)\<rparr>)"
| "workflowReducer now state (SET_CURRENT_STEP stepId) = state\<lparr>currentStepId := Some stepId\<rparr>"
| "workflowReducer now state (SET_WORKFLOW_DATA k v) = state\<lparr>data := (data state)(k \<mapsto> v)\<rparr>"
| "workflowReducer now state (ADD_HISTORY_ENTRY workflowId stepId d) =
     state\<lparr>history := history state @
       [\<lparr>h_workflowId = workflowId, h_stepId = stepId, completedAt = now, h_data = d\<rparr>]\<rparr>"

section \<open>The engine (WorkflowProvider)\<close>

datatype WorkflowEvents =
    WORKFLOW_STARTED | WORKFLOW_COMPLETED | WORKFLOW_CANCELLED | WORKFLOW_PAUSED
  | WORKFLOW_RESUMED | STEP_STARTED | STEP_COMPLETED | STEP_SKIPPED

text \<open>
  What an engine call does, in order: it dispatches actions to the reducer, emits events
  (type, workflow id, step id, data; the event's own timestamp is not kept), calls hooks
  (the hook, with the workflow id and the step id of the context it is given) and calls
  \<open>navigation.navigate\<close> (screen, parameters).

  The engine functions are closures of one render of the provider: \<open>state\<close> in their
  bodies is the state that render captured, and \<open>dispatch\<close> hands an action to the reducer
  without changing that captured value (the test \<open>s.completed || s.id === stepId\<close> in
  \<open>completeStep\<close> is there for this reason). So every engine function takes the captured
  state and returns the list of its effects; the state after the call is the reducer
  folded over the dispatched actions. A hook is opaque: what it does through its context
  is an engine call of its own.
\<close>

datatype effect =
    Dispatch WorkflowAction
  | Emit WorkflowEvents string "string option" "any option"
  | CallHook hook string "string option"
  | Navigate string "record_any option"

fun dispatched :: "effect list \<Rightarrow> WorkflowAction list" where
  "dispatched [] = []"
| "dispatched (Dispatch a # es) = a # dispatched es"
| "dispatched (e # es) = dispatched es"

definition stateAfter :: "nat \<Rightarrow> WorkflowState \<Rightarrow> effect list \<Rightarrow> WorkflowState" where
  "stateAfter now state es = foldl (workflowReducer now) state (dispatched es)"

fun callHook :: "hook option \<Rightarrow> string \<Rightarrow> string option \<Rightarrow> effect list" where
  "callHook None workflowId stepId = []"
| "callHook (Some h) workflowId stepId = [CallHook h workflowId stepId]"

text \<open>\<open>Array.prototype.findIndex\<close>: the index of the first match, or -1.\<close>

fun findIndex :: "('a \<Rightarrow> bool) \<Rightarrow> 'a list \<Rightarrow> int" where
  "findIndex P [] = -1"
| "findIndex P (x # xs) =
     (if P x then 0 else (let r = findIndex P xs in if r < 0 then -1 else r + 1))"

definition areDependenciesMet :: "WorkflowStep \<Rightarrow> WorkflowDefinition \<Rightarrow> bool" where
  "areDependenciesMet step workflow =
     (case dependencies step of
        None \<Rightarrow> True
      | Some deps \<Rightarrow>
          if length deps = 0 then True
          else list_all (\<lambda>depId.
                 case find (\<lambda>s. step_id s = depId) (steps workflow) of
                   None \<Rightarrow> False
                 | Some depStep \<Rightarrow> completed depStep) deps)"

function findNextStep_loop :: "WorkflowDefinition \<Rightarrow> nat \<Rightarrow> WorkflowStep option" where
  "findNextStep_loop workflow i =
     (if i < length (steps workflow)
      then (let step = steps workflow ! i
            in if \<not> completed step \<and> areDependenciesMet step workflow then Some step
               else findNextStep_loop workflow (i + 1))
      else None)"
  by pat_completeness auto
termination
  by (relation "measure (\<lambda>(workflow, i). length (steps workflow) - i)") auto

declare findNextStep_loop.simps [simp del]

definition findNextStep :: "WorkflowDefinition \<Rightarrow> string \<Rightarrow> WorkflowStep option" where
  "findNextStep workflow currentId =
     (let currentIndex = findIndex (\<lambda>s. step_id s = currentId) (steps workflow)
      in findNextStep_loop workflow (nat (currentIndex + 1)))"

text \<open>The effects of \<open>completeStep\<close> up to and including the step's \<open>onComplete\<close> hook.\<close>

definition completion_effects ::
  "WorkflowDefinition \<Rightarrow> WorkflowStep \<Rightarrow> string \<Rightarrow> any option \<Rightarrow> effect list" where
  "completion_effects aw step stepId d =
     [Dispatch (COMPLETE_STEP stepId d),
      Dispatch (ADD_HISTORY_ENTRY (wf_id aw) stepId d),
      Emit STEP_COMPLETED (wf_id aw) (Some stepId) d]
     @ callHook (onComplete step) (wf_id aw) (Some (step_id step))"

definition allRequiredStepsComplete :: "WorkflowDefinition \<Rightarrow> string \<Rightarrow> bool" where
  "allRequiredStepsComplete aw stepId =
     list_all (\<lambda>s. completed s \<or> step_id s = stepId) (filter (\<lambda>s. required s) (steps aw))"

text \<open>The branch of \<open>completeStep\<close> taken when the workflow is complete.\<close>

definition workflow_complete_effects :: "WorkflowDefinition \<Rightarrow> effect list" where
  "workflow_complete_effects aw =
     [Emit WORKFLOW_COMPLETED (wf_id aw) None None]
     @ callHook (wf_onComplete aw) (wf_id aw) None
     @ [Dispatch STOP_WORKFLOW]"

text \<open>The effects of \<open>executeStep\<close> before its test for immediate completion.\<close>

definition activation_effects :: "WorkflowDefinition \<Rightarrow> WorkflowStep \<Rightarrow> effect list" where
  "activation_effects aw step =
     [Dispatch (SET_CURRENT_STEP (step_id step)),
      Emit STEP_STARTED (wf_id aw) (Some (step_id step)) None]
     @ callHook (onActivate step) (wf_id aw) (Some (step_id step))
     @ (if \<not> truthy_bool (headless step) \<and> truthy_string (screen step)
        then [Navigate (the (screen step)) (navigationParams step)] else [])"

definition completesImmediately :: "WorkflowState \<Rightarrow> WorkflowStep \<Rightarrow> bool" where
  "completesImmediately state step =
     (truthy_bool (headless step) \<and>
      (case completionCondition step of None \<Rightarrow> False | Some cond \<Rightarrow> cond (data state)))"

text \<open>
  \<open>completeStep\<close> and \<open>executeStep\<close> call each other, and with repeated step ids the calls
  need not end; the first argument bounds the depth of the calls, and \<open>None\<close> is a run
  that did not end within it.
\<close>

fun completeStep :: "nat \<Rightarrow> WorkflowState \<Rightarrow> string \<Rightarrow> any option \<Rightarrow> effect list option"
and executeStep :: "nat \<Rightarrow> WorkflowState \<Rightarrow> WorkflowStep \<Rightarrow> effect list option" where
  "completeStep 0 state stepId d = None"
| "completeStep (Suc n) state stepId d =
     (case activeWorkflow state of
        None \<Rightarrow> Some []
      | Some aw \<Rightarrow>
          (case find (\<lambda>s. step_id s = stepId) (steps aw) of
             None \<Rightarrow> Some []
           | Some step \<Rightarrow>
               if allRequiredStepsComplete aw stepId
               then Some (completion_effects aw step stepId d @ workflow_complete_effects aw)
               else (case findNextStep aw stepId of
                       None \<Rightarrow> Some (completion_effects aw step stepId d)
                     | Some nextStep \<Rightarrow>
                         map_option (\<lambda>r. completion_effects aw step stepId d @ r)
                           (executeStep n state nextStep))))"
| "executeStep 0 state step = None"
| "executeStep (Suc n) state step =
     (case activeWorkflow state of
        None \<Rightarrow> Some []
      | Some aw \<Rightarrow>
          if completesImmediately state step
          then map_option (\<lambda>r. activation_effects aw step @ r)
                 (completeStep n state (step_id step) None)
          else Some (activation_effects aw step))"


type_synonym registry = "string \<rightharpoonup> WorkflowDefinition"



text \<open>The step \<open>startWorkflow\<close> selects: \<open>workflow.steps.find(step => !step.completed)\<close>.\<close>

definition firstIncompleteStep :: "WorkflowDefinition \<Rightarrow> WorkflowStep option" where
  "firstIncompleteStep workflow = find (\<lambda>step. \<not> completed step) (steps workflow)"


definition stopWorkflow :: "WorkflowState \<Rightarrow> effect list" where
  "stopWorkflow state =
     (case activeWorkflow state of
        None \<Rightarrow> []
      | Some aw \<Rightarrow> [Emit WORKFLOW_CANCELLED (wf_id aw) None None]
                   @ callHook (wf_onCancel aw) (wf_id aw) None)
     @ [Dispatch STOP_WORKFLOW]"

definition pauseWorkflow :: "WorkflowState \<Rightarrow> effect list" where
  "pauseWorkflow state =
     (case activeWorkflow state of
        None \<Rightarrow> []
      | Some aw \<Rightarrow> [Dispatch PAUSE_WORKFLOW, Emit WORKFLOW_PAUSED (wf_id aw) None None])"

definition resumeWorkflow :: "WorkflowState \<Rightarrow> effect list" where
  "resumeWorkflow state =
     (case activeWorkflow state of
        None \<Rightarrow> []
      | Some aw \<Rightarrow> [Dispatch RESUME_WORKFLOW, Emit WORKFLOW_RESUMED (wf_id aw) None None])"

definition skipToStep :: "nat \<Rightarrow> WorkflowState \<Rightarrow> string \<Rightarrow> effect list option" where
  "skipToStep n state stepId =
     (case activeWorkflow state of
        None \<Rightarrow> Some []
      | Some aw \<Rightarrow>
          (case find (\<lambda>s. step_id s = stepId) (steps aw) of
             None \<Rightarrow> Some []
           | Some step \<Rightarrow> executeStep n state step))"



section \<open>WorkflowUtils.validate\<close>





section \<open>The eligibility scan as the specification words it\<close>



text \<open>Sample steps and definitions used to run the definitions on concrete inputs.\<close>

definition mkStep :: "string \<Rightarrow> string option \<Rightarrow> bool \<Rightarrow> bool \<Rightarrow> WorkflowStep" where
  "mkStep i scr compl req =
     \<lparr>step_id = i, screen = scr, completed = compl, required = req,
      completionCondition = None, navigationParams = None, headless = None,
      dependencies = None, onActivate = None, onComplete = None\<rparr>"

definition mkWorkflow :: "string \<Rightarrow> string \<Rightarrow> WorkflowStep list \<Rightarrow> WorkflowDefinition" where
  "mkWorkflow i n ss =
     \<lparr>wf_id = i, wf_name = n, steps = ss, skippable = None, pausable = None,
      wf_onComplete = None, wf_onStart = None, wf_onCancel = None\<rparr>"



definition stepA :: WorkflowStep where
  "stepA = mkStep ''A'' (Some ''ScreenA'') False True"

definition stepB :: WorkflowStep where
  "stepB = mkStep ''B'' (Some ''ScreenB'') False True"

definition flowAB :: WorkflowDefinition where
  "flowAB = mkWorkflow ''W'' ''Flow'' [stepA, stepB]"

definition runningAB :: WorkflowState where
  "runningAB = initialState\<lparr>activeWorkflow := Some flowAB, currentStepId := Some ''A''\<rparr>"

text \<open>
  Scenario 1 of the specification after \<open>A\<close> was completed: \<open>A\<close> (required), \<open>C\<close>
  (optional, depends on \<open>A\<close>), \<open>B\<close> (required, depends on \<open>A\<close>), declared in this order.
\<close>

definition scenarioOne :: WorkflowDefinition where
  "scenarioOne = mkWorkflow ''S1'' ''Scenario one''
     [mkStep ''A'' (Some ''ScreenA'') True True,
      (mkStep ''C'' (Some ''ScreenC'') False False)\<lparr>dependencies := Some [''A'']\<rparr>,
      (mkStep ''B'' (Some ''ScreenB'') False True)\<lparr>dependencies := Some [''A'']\<rparr>]"

definition payloadK :: any where
  "payloadK = AObj [(''k'', AStr ''v'')]"

text \<open>
  A required interactive step \<open>X\<close> followed by a required headless step \<open>Y\<close> whose
  completion predicate holds on every context.
\<close>

definition stepX :: WorkflowStep where
  "stepX = mkStep ''X'' (Some ''ScreenX'') False True"

definition stepY :: WorkflowStep where
  "stepY = (mkStep ''Y'' None False True)
     \<lparr>completionCondition := Some (\<lambda>ctxData. True), headless := Some True\<rparr>"

definition flowXY :: WorkflowDefinition where
  "flowXY = mkWorkflow ''V'' ''Flow XY'' [stepX, stepY]"

definition runningXY :: WorkflowState where
  "runningXY = initialState\<lparr>activeWorkflow := Some flowXY, currentStepId := Some ''X''\<rparr>"

text \<open>
  The step \<open>credential-offer-received\<close> of the example workflow \<open>credential-issuance\<close>,
  with its parameter template, in a workflow started with a credential id.
\<close>

definition offerStep :: WorkflowStep where
  "offerStep = (mkStep ''credential-offer-received'' (Some ''CredentialOffer'') False True)
     \<lparr>navigationParams := Some [''credentialId'' \<mapsto> AStr ''{{credentialId}}'']\<rparr>"

definition offerFlow :: WorkflowDefinition where
  "offerFlow = mkWorkflow ''credential-issuance'' ''Receive Credential'' [offerStep]"

definition offerState :: WorkflowState where
  "offerState = initialState\<lparr>activeWorkflow := Some offerFlow,
     data := [''credentialId'' \<mapsto> AStr ''abc123'']\<rparr>"

text \<open>The registry holding \<open>flowAB\<close>, and the state a first \<open>startWorkflow\<close> leaves.\<close>

definition registryW :: registry where
  "registryW = [''W'' \<mapsto> flowAB]"


text \<open>A paused workflow whose second step has an activation hook and a screen.\<close>

definition stepBhook :: WorkflowStep where
  "stepBhook = stepB\<lparr>onActivate := Some ''activateB''\<rparr>"

definition pausedAB :: WorkflowState where
  "pausedAB = initialState\<lparr>activeWorkflow := Some (mkWorkflow ''W'' ''Flow'' [stepA, stepBhook]),
     currentStepId := Some ''A'', paused := True\<rparr>"

text \<open>A definition with an empty id, an empty name and no steps.\<close>

definition emptyDefinition :: WorkflowDefinition where
  "emptyDefinition = mkWorkflow [] [] []"

text \<open>
  A definition with every kind of violation: no id, no name, two steps with the id \<open>a\<close>,
  the first neither headless nor with a screen, the second headless without hook or
  predicate and depending on an id that no step has.
\<close>

definition manyViolations :: WorkflowDefinition where
  "manyViolations = mkWorkflow [] []
     [mkStep ''a'' None False True,
      (mkStep ''a'' None False True)\<lparr>headless := Some True, dependencies := Some [''zz'']\<rparr>]"

text \<open>The declared dependencies of a step, none when the field is absent.\<close>

definition deps :: "WorkflowStep \<Rightarrow> string list" where
  "deps step = (case dependencies step of None \<Rightarrow> [] | Some ds \<Rightarrow> ds)"


lemmas sample_defs = mkStep_def mkWorkflow_def initialState_def stepA_def stepB_def flowAB_def
  runningAB_def scenarioOne_def payloadK_def stepX_def stepY_def flowXY_def runningXY_def
  offerStep_def offerFlow_def offerState_def registryW_def stepBhook_def pausedAB_def
  emptyDefinition_def manyViolations_def

section \<open>Progress\<close>



section \<open>Lists, \<open>findIndex\<close> and the scan\<close>

lemma findNextStep_loop_find:
  "findNextStep_loop w i = find (\<lambda>s. \<not> completed s \<and> areDependenciesMet s w) (drop i (steps w))"
proof (induction w i rule: findNextStep_loop.induct)
  case (1 workflow i)
  show ?case
  proof (cases "i < length (steps workflow)")
    case False
    then show ?thesis by (subst findNextStep_loop.simps) simp
  next
    case True
    then have d: "drop i (steps workflow) = steps workflow ! i # drop (Suc i) (steps workflow)"
      by (simp add: Cons_nth_drop_Suc)
    show ?thesis
      using True "1.IH" [OF True refl]
      by (subst findNextStep_loop.simps) (simp add: d Let_def)
  qed
qed








section \<open>Step selection\<close>




section \<open>Runs that end\<close>







lemma run_reads_workflow_and_data:
  assumes "activeWorkflow s' = activeWorkflow s" and "data s' = data s"
  shows "completeStep n s' cid d = completeStep n s cid d
       \<and> executeStep n s' st = executeStep n s st"
  using assms
proof (induction n arbitrary: cid d st)
  case 0
  show ?case by simp
next
  case (Suc n)
  from Suc.IH [OF Suc.prems] show ?case
    by (simp add: Suc.prems completesImmediately_def cong: option.case_cong if_cong)
qed

lemmas engine_defs = completion_effects_def allRequiredStepsComplete_def
  workflow_complete_effects_def activation_effects_def completesImmediately_def
  findNextStep_def findNextStep_loop_find areDependenciesMet_def firstIncompleteStep_def


section \<open>completeStep\<close>





section \<open>Workflow completion\<close>

text \<open>
  C2 (the code departs from it). \<open>X\<close> required and interactive, \<open>Y\<close> required and headless
  with a completion predicate that holds. \<open>completeStep\<close> for \<open>X\<close> activates \<open>Y\<close>, which
  completes at once through the nested \<open>completeStep\<close>; that call tests the captured
  workflow, in which \<open>X\<close> is still incomplete. After the call every required step is
  completed, no \<open>WORKFLOW_COMPLETED\<close> was emitted and the workflow is still active.
\<close>

theorem nested_completion_not_detected:
  "completeStep 4 runningXY ''X'' None
     = Some [Dispatch (COMPLETE_STEP ''X'' None),
             Dispatch (ADD_HISTORY_ENTRY ''V'' ''X'' None),
             Emit STEP_COMPLETED ''V'' (Some ''X'') None,
             Dispatch (SET_CURRENT_STEP ''Y''),
             Emit STEP_STARTED ''V'' (Some ''Y'') None,
             Dispatch (COMPLETE_STEP ''Y'' None),
             Dispatch (ADD_HISTORY_ENTRY ''V'' ''Y'' None),
             Emit STEP_COMPLETED ''V'' (Some ''Y'') None]
   \<and> map completed (steps (the (activeWorkflow
         (stateAfter 0 runningXY (the (completeStep 4 runningXY ''X'' None)))))) = [True, True]
   \<and> canComplete (the (activeWorkflow
         (stateAfter 0 runningXY (the (completeStep 4 runningXY ''X'' None)))))
   \<and> activeWorkflow (stateAfter 0 runningXY (the (completeStep 4 runningXY ''X'' None)))
        \<noteq> None
   \<and> currentStepId (stateAfter 0 runningXY (the (completeStep 4 runningXY ''X'' None)))
        = Some ''Y''"
proof -
  have r: "completeStep 4 runningXY ''X'' None
     = Some [Dispatch (COMPLETE_STEP ''X'' None),
             Dispatch (ADD_HISTORY_ENTRY ''V'' ''X'' None),
             Emit STEP_COMPLETED ''V'' (Some ''X'') None,
             Dispatch (SET_CURRENT_STEP ''Y''),
             Emit STEP_STARTED ''V'' (Some ''Y'') None,
             Dispatch (COMPLETE_STEP ''Y'' None),
             Dispatch (ADD_HISTORY_ENTRY ''V'' ''Y'' None),
             Emit STEP_COMPLETED ''V'' (Some ''Y'') None]"
    by (simp add: eval_nat_numeral sample_defs engine_defs)
  show ?thesis
    unfolding r by (simp add: stateAfter_def sample_defs canComplete_def)
qed

section \<open>Navigation parameters\<close>

text \<open>
  C8 (the code departs from it). The example step \<open>credential-offer-received\<close> declares
  the parameter \<open>credentialId: '{{credentialId}}'\<close>, and the data mapping holds a value
  for \<open>credentialId\<close>; activating the step calls \<open>navigate\<close> with the declared parameters,
  the placeholder still in them.
\<close>

theorem navigation_params_passed_verbatim:
  "data offerState ''credentialId'' = Some (AStr ''abc123'')
   \<and> skipToStep 1 offerState ''credential-offer-received''
       = Some [Dispatch (SET_CURRENT_STEP ''credential-offer-received''),
               Emit STEP_STARTED ''credential-issuance'' (Some ''credential-offer-received'') None,
               Navigate ''CredentialOffer'' (navigationParams offerStep)]
   \<and> the (navigationParams offerStep) ''credentialId'' = Some (AStr ''{{credentialId}}'')"
  by (simp add: sample_defs engine_defs skipToStep_def)


section \<open>startWorkflow\<close>




section \<open>The actions of a run\<close>

lemma dispatched_append: "dispatched (xs @ ys) = dispatched xs @ dispatched ys"
  by (induction xs rule: dispatched.induct) simp_all

lemma dispatched_callHook: "dispatched (callHook h w i) = []"
  by (cases h) simp_all

lemma dispatched_completion:
  "dispatched (completion_effects aw step stepId d)
     = [COMPLETE_STEP stepId d, ADD_HISTORY_ENTRY (wf_id aw) stepId d]"
  by (simp add: completion_effects_def dispatched_callHook)


lemma dispatched_workflow_complete:
  "dispatched (workflow_complete_effects aw) = [STOP_WORKFLOW]"
  by (simp add: workflow_complete_effects_def dispatched_append dispatched_callHook)







section \<open>Pause and resume\<close>

text \<open>
  C5 (as amended). The paused flag has no influence on \<open>completeStep\<close>: paused or not,
  the call has the same effects. In particular, while paused, \<open>completeStep\<close> on a step
  after which \<open>findNextStep\<close> selects a step that does not complete at once marks the
  step completed, appends the history entry and performs the activation of the selected
  step (current step, \<open>STEP_STARTED\<close>, \<open>onActivate\<close>, navigation) in the same call.
  \<open>resumeWorkflow\<close> only clears the paused flag and emits \<open>WORKFLOW_RESUMED\<close>; it
  activates nothing.
\<close>

theorem paused_flag_not_consulted:
  "completeStep n (s\<lparr>paused := True\<rparr>) stepId d = completeStep n (s\<lparr>paused := False\<rparr>) stepId d
   \<and> (\<forall>aw step nextStep. paused s \<and> activeWorkflow s = Some aw
         \<and> find (\<lambda>x. step_id x = stepId) (steps aw) = Some step
         \<and> \<not> allRequiredStepsComplete aw stepId
         \<and> findNextStep aw stepId = Some nextStep \<and> \<not> completesImmediately s nextStep \<longrightarrow>
        completeStep (Suc (Suc n)) s stepId d
          = Some (completion_effects aw step stepId d @ activation_effects aw nextStep))
   \<and> (\<forall>aw. activeWorkflow s = Some aw \<longrightarrow>
        resumeWorkflow s = [Dispatch RESUME_WORKFLOW, Emit WORKFLOW_RESUMED (wf_id aw) None None]
        \<and> stateAfter now s (resumeWorkflow s) = s\<lparr>paused := False\<rparr>)
   \<and> (activeWorkflow s = None \<longrightarrow> resumeWorkflow s = [])"
proof (intro conjI allI impI)
  show "completeStep n (s\<lparr>paused := True\<rparr>) stepId d
      = completeStep n (s\<lparr>paused := False\<rparr>) stepId d"
    using run_reads_workflow_and_data [of "s\<lparr>paused := True\<rparr>" "s\<lparr>paused := False\<rparr>" n stepId d]
    by simp
next
  fix aw step nextStep
  assume "paused s \<and> activeWorkflow s = Some aw
         \<and> find (\<lambda>x. step_id x = stepId) (steps aw) = Some step
         \<and> \<not> allRequiredStepsComplete aw stepId
         \<and> findNextStep aw stepId = Some nextStep \<and> \<not> completesImmediately s nextStep"
  then show "completeStep (Suc (Suc n)) s stepId d
          = Some (completion_effects aw step stepId d @ activation_effects aw nextStep)"
    by simp
next
  fix aw
  assume aw: "activeWorkflow s = Some aw"
  then show "resumeWorkflow s
      = [Dispatch RESUME_WORKFLOW, Emit WORKFLOW_RESUMED (wf_id aw) None None]"
    by (simp add: resumeWorkflow_def)
  from aw show "stateAfter now s (resumeWorkflow s) = s\<lparr>paused := False\<rparr>"
    by (simp add: resumeWorkflow_def stateAfter_def)
next
  assume "activeWorkflow s = None"
  then show "resumeWorkflow s = []" by (simp add: resumeWorkflow_def)
qed

theorem paused_flag_not_consulted_witness:
  "paused pausedAB
   \<and> activeWorkflow pausedAB = Some (mkWorkflow ''W'' ''Flow'' [stepA, stepBhook])
   \<and> find (\<lambda>x. step_id x = ''A'') (steps (mkWorkflow ''W'' ''Flow'' [stepA, stepBhook])) = Some stepA
   \<and> \<not> allRequiredStepsComplete (mkWorkflow ''W'' ''Flow'' [stepA, stepBhook]) ''A''
   \<and> findNextStep (mkWorkflow ''W'' ''Flow'' [stepA, stepBhook]) ''A'' = Some stepBhook
   \<and> \<not> completesImmediately pausedAB stepBhook
   \<and> completeStep (Suc (Suc 0)) pausedAB ''A'' None
       = Some (completion_effects (mkWorkflow ''W'' ''Flow'' [stepA, stepBhook]) stepA ''A'' None
               @ activation_effects (mkWorkflow ''W'' ''Flow'' [stepA, stepBhook]) stepBhook)
   \<and> resumeWorkflow pausedAB = [Dispatch RESUME_WORKFLOW, Emit WORKFLOW_RESUMED ''W'' None None]
   \<and> stateAfter 0 pausedAB (resumeWorkflow pausedAB) = pausedAB\<lparr>paused := False\<rparr>
   \<and> activeWorkflow initialState = None
   \<and> resumeWorkflow initialState = []"
proof -
  let ?w = "mkWorkflow ''W'' ''Flow'' [stepA, stepBhook]"
  have a: "paused pausedAB \<and> activeWorkflow pausedAB = Some ?w
     \<and> find (\<lambda>x. step_id x = ''A'') (steps ?w) = Some stepA
     \<and> \<not> allRequiredStepsComplete ?w ''A''
     \<and> findNextStep ?w ''A'' = Some stepBhook
     \<and> \<not> completesImmediately pausedAB stepBhook"
    by (simp add: sample_defs engine_defs)
  have w: "wf_id ?w = ''W''" by (simp add: mkWorkflow_def)
  have i: "activeWorkflow initialState = None" by (simp add: initialState_def)
  from paused_flag_not_consulted [of 0 pausedAB "''A''" None 0]
    paused_flag_not_consulted [of 0 initialState "''A''" None 0] a i
  show ?thesis by (auto simp add: w)
qed

text \<open>
  C5 as stated fails: in a paused workflow, completing \<open>A\<close> calls the \<open>onActivate\<close> hook
  of \<open>B\<close> and navigates to its screen in the same call; the later \<open>resumeWorkflow\<close>
  contains no activation.
\<close>

theorem paused_activation_counterexample:
  "paused pausedAB
   \<and> completeStep 2 pausedAB ''A'' None
       = Some [Dispatch (COMPLETE_STEP ''A'' None),
               Dispatch (ADD_HISTORY_ENTRY ''W'' ''A'' None),
               Emit STEP_COMPLETED ''W'' (Some ''A'') None,
               Dispatch (SET_CURRENT_STEP ''B''),
               Emit STEP_STARTED ''W'' (Some ''B'') None,
               CallHook ''activateB'' ''W'' (Some ''B''),
               Navigate ''ScreenB'' None]
   \<and> paused (stateAfter 0 pausedAB (the (completeStep 2 pausedAB ''A'' None)))
   \<and> resumeWorkflow (stateAfter 0 pausedAB (the (completeStep 2 pausedAB ''A'' None)))
       = [Dispatch RESUME_WORKFLOW, Emit WORKFLOW_RESUMED ''W'' None None]"
proof -
  have r: "completeStep 2 pausedAB ''A'' None
       = Some [Dispatch (COMPLETE_STEP ''A'' None),
               Dispatch (ADD_HISTORY_ENTRY ''W'' ''A'' None),
               Emit STEP_COMPLETED ''W'' (Some ''A'') None,
               Dispatch (SET_CURRENT_STEP ''B''),
               Emit STEP_STARTED ''W'' (Some ''B'') None,
               CallHook ''activateB'' ''W'' (Some ''B''),
               Navigate ''ScreenB'' None]"
    by (simp add: eval_nat_numeral sample_defs engine_defs)
  show ?thesis
    unfolding r by (simp add: stateAfter_def sample_defs resumeWorkflow_def)
qed


section \<open>skipToStep\<close>





section \<open>Registration and validation\<close>











section \<open>Completion detected by the completing call\<close>


text \<open>
  When the captured workflow already shows every other required step completed, the
  completion is detected in the same call: \<open>WORKFLOW_COMPLETED\<close> is emitted once, and
  afterwards no workflow is active.
\<close>

lemma completion_detected_in_same_call:
  assumes "activeWorkflow s = Some aw"
    and "find (\<lambda>x. step_id x = stepId) (steps aw) = Some step"
    and "allRequiredStepsComplete aw stepId"
  shows "completeStep (Suc n) s stepId d
           = Some (completion_effects aw step stepId d @ workflow_complete_effects aw)"
    and "length (filter (\<lambda>e. e = Emit WORKFLOW_COMPLETED (wf_id aw) None None)
           (completion_effects aw step stepId d @ workflow_complete_effects aw)) = 1"
    and "activeWorkflow (stateAfter now s
           (completion_effects aw step stepId d @ workflow_complete_effects aw)) = None"
proof -
  show "completeStep (Suc n) s stepId d
           = Some (completion_effects aw step stepId d @ workflow_complete_effects aw)"
    using assms by simp
  show "length (filter (\<lambda>e. e = Emit WORKFLOW_COMPLETED (wf_id aw) None None)
           (completion_effects aw step stepId d @ workflow_complete_effects aw)) = 1"
    by (cases "onComplete step"; cases "wf_onComplete aw")
      (simp_all add: completion_effects_def workflow_complete_effects_def)
  show "activeWorkflow (stateAfter now s
           (completion_effects aw step stepId d @ workflow_complete_effects aw)) = None"
    using assms(1)
    by (simp add: stateAfter_def dispatched_append dispatched_completion
        dispatched_workflow_complete)
qed

end
